theory Spec2Isabelle
  imports Main "HOL-Library.Char_ord" "HOL-Library.List_Lexorder" "HOL-Library.AList"
    "HOL-Library.Multiset"
begin

section \<open>Data model\<close>

text \<open>
  Go strings and byte slices are sequences of 8-bit characters. A byte slice that may be
  \<open>nil\<close> is an option (\<open>None\<close> is \<open>nil\<close>). \<open>sort.Strings\<close> orders strings
  byte-wise lexicographically, which is the order of \<open>List_Lexorder\<close> over \<open>Char_ord\<close>,
  so it is modelled by \<open>sort\<close>.

  A Go map is an association list with distinct keys; the order of the list stands for the
  (unspecified) iteration order of one run of \<open>range\<close>. A map of pointers holds options
  (\<open>None\<close> is a nil pointer).
\<close>

type_synonym bytes = string
type_synonym 'v gomap = "(string \<times> 'v) list"
type_synonym Labels = "string gomap"

text \<open>Indexing a Go map: a missing key gives the zero value of the element type.\<close>

definition lookupLabels :: "Labels gomap \<Rightarrow> string \<Rightarrow> Labels" where
  "lookupLabels m k = (case map_of m k of None \<Rightarrow> [] | Some v \<Rightarrow> v)"

definition lookupPtr :: "('a option) gomap \<Rightarrow> string \<Rightarrow> 'a option" where
  "lookupPtr m k = (case map_of m k of None \<Rightarrow> None | Some p \<Rightarrow> p)"

text \<open>
  A function that dereferences a nil pointer panics; \<open>Panicked\<close> is that outcome.
\<close>

datatype 'a exec = Returned 'a | Panicked

subsection \<open>Entity model (package common)\<close>

text \<open>
  The struct declarations of \<open>Object\<close>, \<open>File\<close> and \<open>BaseConfig\<close> are outside the
  sources at hand; the records hold the fields that the builders and the dispatcher read.
  The type \<open>'x\<close> stands for the values whose structure is not visible there: the decoded
  payload of a file, the quality, availability and metric rules of a BaseConfig, and the
  metric entries of a PrometheusHttp input.
\<close>

record 'x File =
  File_Path :: string
  File_Type :: string
  File_Obj :: 'x

record 'x BaseConfig =
  BC_Labels :: Labels
  BC_Vars :: Labels
  BC_Qualities :: 'x
  BC_Availability :: 'x
  BC_Metrics :: 'x

record 'x Object =
  Obj_Vars :: Labels
  Obj_Labels :: Labels
  Obj_Files :: "'x File option gomap"
  Obj_Configs :: "'x BaseConfig option gomap"
  Obj_Metrics :: "string list"

subsection \<open>Options and input records (package telegraf)\<close>

text \<open>
  The options and input structs are declared outside the sources at hand as well. An options
  record holds the fields that \<open>cmd/root.go\<close> sets and the builders read, with the types of
  the flags there (the X.509 options are not set there; their fields are strings and
  booleans as their names say). An input record holds the fields that its builder assigns.
\<close>

record InputPrometheusHttpOptions =
  PHO_URL :: string
  PHO_User :: string
  PHO_Password :: string
  PHO_Version :: string
  PHO_Params :: string
  PHO_Interval :: string
  PHO_Timeout :: string
  PHO_Duration :: string
  PHO_Prefix :: string
  PHO_QualityName :: string
  PHO_QualityRange :: string
  PHO_QualityEvery :: string
  PHO_QualityPoints :: int
  PHO_QualityQuery :: string
  PHO_AvailabilityName :: string
  PHO_MetricName :: string
  PHO_DefaultTags :: "string list"
  PHO_VarFormat :: string

record InputPrometheusHttpFile =
  PHF_Name :: string
  PHF_Path :: string
  PHF_Type :: string

record 'x InputPrometheusHttp =
  PH_Name :: string
  PH_URL :: string
  PH_User :: string
  PH_Password :: string
  PH_Version :: string
  PH_Params :: string
  PH_Interval :: string
  PH_Timeout :: string
  PH_Duration :: string
  PH_Prefix :: string
  PH_File :: "InputPrometheusHttpFile list"
  PH_Metric :: "'x list"
  PH_Tags :: Labels
  PH_Include :: "string list"
  PH_SkipEmptyTags :: bool

record InputDNSQueryOptions =
  DNSO_Interval :: string
  DNSO_Servers :: string
  DNSO_Network :: string
  DNSO_RecordType :: string
  DNSO_Port :: int
  DNSO_Timeout :: int
  DNSO_Tags :: "string list"

record InputDNSQuery =
  DNS_Interval :: string
  DNS_Servers :: "string list"
  DNS_Domains :: "string list"
  DNS_Network :: string
  DNS_RecordType :: string
  DNS_Port :: int
  DNS_Timeout :: int
  DNS_Tags :: Labels
  DNS_Include :: "string list"

record InputHTTPResponseOptions =
  HTTPO_Interval :: string
  HTTPO_URLs :: string
  HTTPO_Path :: string
  HTTPO_Method :: string
  HTTPO_FollowRedirects :: bool
  HTTPO_StringMatch :: string
  HTTPO_StatusCode :: int
  HTTPO_Timeout :: string
  HTTPO_Tags :: "string list"

record InputHTTPResponse =
  HTTP_Interval :: string
  HTTP_URLs :: "string list"
  HTTP_Timeout :: string
  HTTP_Method :: string
  HTTP_FollowRedirects :: bool
  HTTP_StringMatch :: string
  HTTP_StatusCode :: int
  HTTP_InsecureSkipVerify :: bool
  HTTP_Tags :: Labels
  HTTP_Include :: "string list"

record InputNetResponseOptions =
  NETO_Interval :: string
  NETO_Timeout :: string
  NETO_ReadTimeout :: string
  NETO_Send :: string
  NETO_Expect :: string
  NETO_Tags :: "string list"

record InputNetResponse =
  NET_Interval :: string
  NET_Address :: string
  NET_Protocol :: string
  NET_Timeout :: string
  NET_ReadTimeout :: string
  NET_Send :: string
  NET_Expect :: string
  NET_Tags :: Labels
  NET_Include :: "string list"

record InputX509CertOptions =
  X509O_Interval :: string
  X509O_Timeout :: string
  X509O_ServerName :: string
  X509O_ExcludeRootCerts :: bool
  X509O_TLSCA :: string
  X509O_TLSCert :: string
  X509O_TLSKey :: string
  X509O_TLSServerName :: string
  X509O_UseProxy :: bool
  X509O_ProxyURL :: string
  X509O_Tags :: "string list"

record InputX509Cert =
  X509_Interval :: string
  X509_Sources :: "string list"
  X509_Timeout :: string
  X509_ServerName :: string
  X509_ExcludeRootCerts :: bool
  X509_TLSCA :: string
  X509_TLSCert :: string
  X509_TLSKey :: string
  X509_TLSServerName :: string
  X509_UseProxy :: bool
  X509_ProxyURL :: string
  X509_Tags :: Labels
  X509_Include :: "string list"

text \<open>
  The serialization container. Its \<open>Observability\<close> field (and the unexported
  \<open>observability\<close> field of every input) only carries the logger and is not encoded
  (\<open>toml:"-"\<close>); it is left out.
\<close>

record 'x Inputs =
  PrometheusHttp :: "'x InputPrometheusHttp list"
  DNSQuery :: "InputDNSQuery list"
  HTTPResponse :: "InputHTTPResponse list"
  NetResponse :: "InputNetResponse list"
  X509Cert :: "InputX509Cert list"

record 'x Config =
  Inputs :: "'x Inputs"

definition emptyConfig :: "'x Config" where
  "emptyConfig = \<lparr>Inputs = \<lparr>PrometheusHttp = [], DNSQuery = [], HTTPResponse = [],
     NetResponse = [], X509Cert = []\<rparr>\<rparr>"

section \<open>Effects and collaborators\<close>

text \<open>
  Errors are values. \<open>MetricsNotFound\<close> is \<open>errors.New("Metrics are not found.")\<close>,
  \<open>NoOptions\<close> is \<open>errors.New("no options")\<close>, and \<open>EncodeError\<close> carries what the
  TOML encoder reported.
\<close>

datatype error = MetricsNotFound | EncodeError string | NoOptions

text \<open>
  A log entry keeps the level, the format string of the source and its arguments.
\<close>

datatype logArg = StrArg string | IntArg nat | ListArg "string list" | ErrArg error

datatype logEntry = Debug string "logArg list" | Error string "logArg list"

text \<open>
  The observable world: the file system (of a type \<open>'fs\<close> that only
  \<open>FileWriteWithCheckSum\<close> reads and writes), the log, and a trace of the calls that
  the claims speak about. \<open>Build f\<close> is recorded where the dispatcher calls the builder
  \<open>f\<close>, \<open>Gate name conf\<close> on entry to the persistence gate, and
  \<open>FileWrite conf content checksum\<close> where the gate calls
  \<open>common.FileWriteWithCheckSum\<close>.
\<close>

datatype event = Build string | Gate string string | FileWrite string bytes bool

record 'fs world =
  files :: 'fs
  trace :: "event list"
  logs :: "logEntry list"

definition logDebug :: "string \<Rightarrow> logArg list \<Rightarrow> 'fs world \<Rightarrow> 'fs world" where
  "logDebug fmt args w = w\<lparr>logs := logs w @ [Debug fmt args]\<rparr>"

definition logError :: "string \<Rightarrow> logArg list \<Rightarrow> 'fs world \<Rightarrow> 'fs world" where
  "logError fmt args w = w\<lparr>logs := logs w @ [Error fmt args]\<rparr>"

definition record_event :: "event \<Rightarrow> 'fs world \<Rightarrow> 'fs world" where
  "record_event e w = w\<lparr>trace := trace w @ [e]\<rparr>"

text \<open>
  The collaborators whose code is not part of the sources at hand are parameters of the
  model, collected in one record:
  \<^item> \<open>IsEmpty\<close> and \<open>TrimSpace\<close>: \<open>utils.IsEmpty\<close> of the external utilities library
    and \<open>strings.TrimSpace\<close>;
  \<^item> \<open>Encode\<close>: the TOML encoder run on the container, giving the encoder's error or the
    bytes it wrote to the buffer;
  \<^item> \<open>FileWriteWithCheckSum\<close>: \<open>common.FileWriteWithCheckSum\<close>, returning the pair
    \<open>(exists, err)\<close> and the new file system;
  \<^item> \<open>Render\<close>: \<open>common.Render\<close>, which hands the template to the external template
    engine; it gives the rendered string and the entries it logged;
  \<^item> \<open>buildQualities\<close>, \<open>buildAvailability\<close>, \<open>buildMetrics\<close>: the methods of
    \<open>InputPrometheusHttp\<close> that add the metric entries; they update the input record and
    are taken to leave the Object and the maps they are given unchanged;
  \<^item> \<open>ConvertSyncMapToServices\<close>, \<open>ConvertSyncMapToLabelsMap\<close> and \<open>SinkMapLen\<close>:
    the conversions of a \<open>common.SinkMap\<close> (of type \<open>'sm\<close>) and its \<open>len\<close>;
  \<^item> \<open>PersistMetrics\<close>: the fifth argument of \<open>GenerateInputPrometheusHttpBytes\<close>,
    which the call in \<open>processSignal\<close> does not spell out.
\<close>

record ('x, 'fs, 'sm) env =
  IsEmpty :: "string \<Rightarrow> bool"
  TrimSpace :: "string \<Rightarrow> string"
  Encode :: "'x Config \<Rightarrow> string + bytes"
  FileWriteWithCheckSum :: "string \<Rightarrow> bytes \<Rightarrow> bool \<Rightarrow> 'fs \<Rightarrow> (bool \<times> string option) \<times> 'fs"
  Render :: "string \<Rightarrow> Labels \<Rightarrow> string \<times> logEntry list"
  buildQualities :: "'x Object \<Rightarrow> 'x \<Rightarrow> string \<Rightarrow> InputPrometheusHttpOptions \<Rightarrow> Labels \<Rightarrow> Labels
    \<Rightarrow> 'x gomap \<Rightarrow> bool \<Rightarrow> 'x InputPrometheusHttp \<Rightarrow> 'x InputPrometheusHttp"
  buildAvailability :: "'x Object \<Rightarrow> 'x \<Rightarrow> string \<Rightarrow> InputPrometheusHttpOptions \<Rightarrow> Labels \<Rightarrow> Labels
    \<Rightarrow> 'x gomap \<Rightarrow> bool \<Rightarrow> 'x InputPrometheusHttp \<Rightarrow> 'x InputPrometheusHttp"
  buildMetrics :: "'x Object \<Rightarrow> 'x \<Rightarrow> string \<Rightarrow> InputPrometheusHttpOptions \<Rightarrow> Labels \<Rightarrow> Labels
    \<Rightarrow> 'x gomap \<Rightarrow> bool \<Rightarrow> 'x InputPrometheusHttp \<Rightarrow> 'x InputPrometheusHttp"
  ConvertSyncMapToServices :: "'sm \<Rightarrow> 'x Object option gomap"
  ConvertSyncMapToLabelsMap :: "'sm \<Rightarrow> Labels gomap"
  SinkMapLen :: "'sm \<Rightarrow> nat"
  PersistMetrics :: bool

section \<open>Package common\<close>

text \<open>
  \<open>MergeStringMaps\<close> walks the maps in argument order and assigns every entry to the
  result, so a later map overwrites an earlier one.
\<close>

definition MergeStringMaps :: "Labels list \<Rightarrow> Labels" where
  "MergeStringMaps maps =
     fold (\<lambda>m r. fold (\<lambda>(k, v) r. AList.update k v r) m r) maps []"

definition GetBaseConfigKeys :: "'a gomap \<Rightarrow> string list" where
  "GetBaseConfigKeys arr = map fst arr"

definition GetFileKeys :: "'a gomap \<Rightarrow> string list" where
  "GetFileKeys arr = map fst arr"

definition GetLabelsKeys :: "'a gomap \<Rightarrow> string list" where
  "GetLabelsKeys arr = map fst arr"

section \<open>The persistence gate\<close>

definition newline :: bytes where
  "newline = [CHR 0x0A]"

definition CreateWithTemplateIfCheckSumIsDifferent ::
  "('x, 'fs, 'sm) env \<Rightarrow> string \<Rightarrow> string \<Rightarrow> string \<Rightarrow> bool \<Rightarrow> bytes option
     \<Rightarrow> 'fs world \<Rightarrow> 'fs world" where
  "CreateWithTemplateIfCheckSumIsDifferent E name template conf checksum bs w0 =
     (let w = record_event (Gate name conf) w0 in
      case bs of
        None \<Rightarrow> logDebug ''%s: No query config'' [StrArg name] w
      | Some b \<Rightarrow>
          if length b = 0 then logDebug ''%s: No query config'' [StrArg name] w
          else
            let b' = (if \<not> IsEmpty E template then b @ newline @ template else b);
                r = FileWriteWithCheckSum E conf b' checksum (files w);
                w' = (record_event (FileWrite conf b' checksum) w)\<lparr>files := snd r\<rparr>
            in case snd (fst r) of
                 Some err \<Rightarrow>
                   logDebug ''%s: Cannot create file %s error: %s''
                     [StrArg name, StrArg conf, StrArg err] w'
               | None \<Rightarrow>
                   if fst (fst r)
                   then logDebug ''%s: File %s exists, skipped'' [StrArg name, StrArg conf] w'
                   else logDebug ''%s: File %s created or replaced''
                     [StrArg name, StrArg conf] w')"

definition CreateIfCheckSumIsDifferent ::
  "('x, 'fs, 'sm) env \<Rightarrow> string \<Rightarrow> string \<Rightarrow> bool \<Rightarrow> bytes option \<Rightarrow> 'fs world \<Rightarrow> 'fs world" where
  "CreateIfCheckSumIsDifferent E name conf checksum bs w =
     CreateWithTemplateIfCheckSumIsDifferent E name [] conf checksum bs w"

section \<open>The input builders\<close>

text \<open>
  Modelled from the spec: \<open>updateIncludeTags\<close> is a method of each input type, declared
  with those types outside the sources at hand. The spec describes the Include list as a
  de-duplicated union of tag names, so the method is taken to append to Include every given
  tag name that Include does not hold yet. It is given the tag names and the Include list
  only.
\<close>

fun updateIncludeTags :: "string list \<Rightarrow> string list \<Rightarrow> string list" where
  "updateIncludeTags [] incl = incl"
| "updateIncludeTags (tag # tags) incl =
     updateIncludeTags tags (if tag \<in> set incl then incl else incl @ [tag])"

text \<open>
  Every builder ends by encoding the container into a fresh buffer: the encoder's error
  gives \<open>(nil, err)\<close>, otherwise the bytes of the buffer are returned.
\<close>

definition encodeConfig :: "('x, 'fs, 'sm) env \<Rightarrow> 'x Config \<Rightarrow> bytes option \<times> error option" where
  "encodeConfig E tc =
     (case Encode E tc of
        Inl err \<Rightarrow> (None, Some (EncodeError err))
      | Inr b \<Rightarrow> (Some b, None))"

subsection \<open>DNS query\<close>

text \<open>\<open>strings.Split s sep\<close> for a separator of one byte.\<close>

fun Split :: "string \<Rightarrow> char \<Rightarrow> string list" where
  "Split [] sep = [[]]"
| "Split (c # cs) sep =
     (if c = sep then [] # Split cs sep
      else (case Split cs sep of [] \<Rightarrow> [[c]] | p # ps \<Rightarrow> (c # p) # ps))"

fun collectServers :: "('x, 'fs, 'sm) env \<Rightarrow> string list \<Rightarrow> string list \<Rightarrow> string list" where
  "collectServers E [] servers = servers"
| "collectServers E (s # arr) servers =
     (let s' = TrimSpace E s
      in collectServers E arr (if s' \<in> set servers then servers else servers @ [s']))"

text \<open>
  The record built in one round of the loop. \<open>updateIncludeTags\<close> runs on the fresh
  record, whose Include is still empty; Tags is assigned after it.
\<close>

definition newInputDNSQuery ::
  "InputDNSQueryOptions \<Rightarrow> string list \<Rightarrow> Labels gomap \<Rightarrow> string \<Rightarrow> InputDNSQuery" where
  "newInputDNSQuery opts servers domains k =
     \<lparr>DNS_Interval = DNSO_Interval opts,
      DNS_Servers = servers,
      DNS_Domains = [k],
      DNS_Network = DNSO_Network opts,
      DNS_RecordType = DNSO_RecordType opts,
      DNS_Port = DNSO_Port opts,
      DNS_Timeout = DNSO_Timeout opts,
      DNS_Tags = lookupLabels domains k,
      DNS_Include = sort (updateIncludeTags (DNSO_Tags opts) [])\<rparr>"

fun dnsLoop ::
  "InputDNSQueryOptions \<Rightarrow> string list \<Rightarrow> Labels gomap \<Rightarrow> string list \<Rightarrow> 'x Config \<Rightarrow> 'x Config" where
  "dnsLoop opts servers domains [] tc = tc"
| "dnsLoop opts servers domains (k # keys) tc =
     dnsLoop opts servers domains keys
       (tc\<lparr>Inputs := (Inputs tc)\<lparr>DNSQuery :=
          DNSQuery (Inputs tc) @ [newInputDNSQuery opts servers domains k]\<rparr>\<rparr>)"

definition GenerateInputDNSQueryBytes ::
  "('x, 'fs, 'sm) env \<Rightarrow> InputDNSQueryOptions \<Rightarrow> Labels gomap \<Rightarrow> 'x Config
     \<Rightarrow> (bytes option \<times> error option) \<times> 'x Config" where
  "GenerateInputDNSQueryBytes E opts domains tc =
     (let servers = sort (collectServers E (Split (DNSO_Servers opts) (CHR '','')) []);
          keys = sort (GetLabelsKeys domains);
          tc' = dnsLoop opts servers domains keys tc
      in (encodeConfig E tc', tc'))"

subsection \<open>HTTP response\<close>

definition newInputHTTPResponse ::
  "InputHTTPResponseOptions \<Rightarrow> Labels gomap \<Rightarrow> string \<Rightarrow> InputHTTPResponse" where
  "newInputHTTPResponse opts urls k =
     \<lparr>HTTP_Interval = HTTPO_Interval opts,
      HTTP_URLs = [k],
      HTTP_Timeout = HTTPO_Timeout opts,
      HTTP_Method = HTTPO_Method opts,
      HTTP_FollowRedirects = HTTPO_FollowRedirects opts,
      HTTP_StringMatch = HTTPO_StringMatch opts,
      HTTP_StatusCode = HTTPO_StatusCode opts,
      HTTP_InsecureSkipVerify = True,
      HTTP_Tags = lookupLabels urls k,
      HTTP_Include = sort (updateIncludeTags (HTTPO_Tags opts) [])\<rparr>"

fun httpLoop ::
  "InputHTTPResponseOptions \<Rightarrow> Labels gomap \<Rightarrow> string list \<Rightarrow> 'x Config \<Rightarrow> 'x Config" where
  "httpLoop opts urls [] tc = tc"
| "httpLoop opts urls (k # keys) tc =
     httpLoop opts urls keys
       (tc\<lparr>Inputs := (Inputs tc)\<lparr>HTTPResponse :=
          HTTPResponse (Inputs tc) @ [newInputHTTPResponse opts urls k]\<rparr>\<rparr>)"

definition GenerateInputHTTPResponseBytes ::
  "('x, 'fs, 'sm) env \<Rightarrow> InputHTTPResponseOptions \<Rightarrow> Labels gomap \<Rightarrow> 'x Config
     \<Rightarrow> (bytes option \<times> error option) \<times> 'x Config" where
  "GenerateInputHTTPResponseBytes E opts urls tc =
     (let keys = sort (GetLabelsKeys urls);
          tc' = httpLoop opts urls keys tc
      in (encodeConfig E tc', tc'))"

subsection \<open>Net response\<close>

definition newInputNetResponse ::
  "InputNetResponseOptions \<Rightarrow> Labels gomap \<Rightarrow> string \<Rightarrow> string \<Rightarrow> InputNetResponse" where
  "newInputNetResponse opts addresses protocol k =
     \<lparr>NET_Interval = NETO_Interval opts,
      NET_Address = k,
      NET_Protocol = protocol,
      NET_Timeout = NETO_Timeout opts,
      NET_ReadTimeout = NETO_ReadTimeout opts,
      NET_Send = NETO_Send opts,
      NET_Expect = NETO_Expect opts,
      NET_Tags = lookupLabels addresses k,
      NET_Include = sort (updateIncludeTags (NETO_Tags opts) [])\<rparr>"

fun netLoop ::
  "InputNetResponseOptions \<Rightarrow> Labels gomap \<Rightarrow> string \<Rightarrow> string list \<Rightarrow> 'x Config \<Rightarrow> 'x Config" where
  "netLoop opts addresses protocol [] tc = tc"
| "netLoop opts addresses protocol (k # keys) tc =
     netLoop opts addresses protocol keys
       (tc\<lparr>Inputs := (Inputs tc)\<lparr>NetResponse :=
          NetResponse (Inputs tc) @ [newInputNetResponse opts addresses protocol k]\<rparr>\<rparr>)"

definition GenerateInputNETResponseBytes ::
  "('x, 'fs, 'sm) env \<Rightarrow> InputNetResponseOptions \<Rightarrow> Labels gomap \<Rightarrow> string \<Rightarrow> 'x Config
     \<Rightarrow> (bytes option \<times> error option) \<times> 'x Config" where
  "GenerateInputNETResponseBytes E opts addresses protocol tc =
     (let keys = sort (GetLabelsKeys addresses);
          tc' = netLoop opts addresses protocol keys tc
      in (encodeConfig E tc', tc'))"

subsection \<open>X.509 certificate\<close>

definition newInputX509Cert ::
  "InputX509CertOptions \<Rightarrow> Labels gomap \<Rightarrow> string \<Rightarrow> InputX509Cert" where
  "newInputX509Cert opts addresses k =
     \<lparr>X509_Interval = X509O_Interval opts,
      X509_Sources = [k],
      X509_Timeout = X509O_Timeout opts,
      X509_ServerName = X509O_ServerName opts,
      X509_ExcludeRootCerts = X509O_ExcludeRootCerts opts,
      X509_TLSCA = X509O_TLSCA opts,
      X509_TLSCert = X509O_TLSCert opts,
      X509_TLSKey = X509O_TLSKey opts,
      X509_TLSServerName = X509O_TLSServerName opts,
      X509_UseProxy = X509O_UseProxy opts,
      X509_ProxyURL = X509O_ProxyURL opts,
      X509_Tags = lookupLabels addresses k,
      X509_Include = sort (updateIncludeTags (X509O_Tags opts) [])\<rparr>"

fun x509Loop ::
  "InputX509CertOptions \<Rightarrow> Labels gomap \<Rightarrow> string list \<Rightarrow> 'x Config \<Rightarrow> 'x Config" where
  "x509Loop opts addresses [] tc = tc"
| "x509Loop opts addresses (k # keys) tc =
     x509Loop opts addresses keys
       (tc\<lparr>Inputs := (Inputs tc)\<lparr>X509Cert :=
          X509Cert (Inputs tc) @ [newInputX509Cert opts addresses k]\<rparr>\<rparr>)"

definition GenerateInputX509CertBytes ::
  "('x, 'fs, 'sm) env \<Rightarrow> InputX509CertOptions \<Rightarrow> Labels gomap \<Rightarrow> 'x Config
     \<Rightarrow> (bytes option \<times> error option) \<times> 'x Config" where
  "GenerateInputX509CertBytes E opts addresses tc =
     (let keys = sort (GetLabelsKeys addresses);
          tc' = x509Loop opts addresses keys tc
      in (encodeConfig E tc', tc'))"

subsection \<open>Prometheus over HTTP (the metrics builder)\<close>

definition newInputPrometheusHttp ::
  "InputPrometheusHttpOptions \<Rightarrow> string \<Rightarrow> 'x InputPrometheusHttp" where
  "newInputPrometheusHttp opts name =
     \<lparr>PH_Name = name,
      PH_URL = PHO_URL opts,
      PH_User = PHO_User opts,
      PH_Password = PHO_Password opts,
      PH_Version = PHO_Version opts,
      PH_Params = PHO_Params opts,
      PH_Interval = PHO_Interval opts,
      PH_Timeout = PHO_Timeout opts,
      PH_Duration = PHO_Duration opts,
      PH_Prefix = PHO_Prefix opts,
      PH_File = [],
      PH_Metric = [],
      PH_Tags = [],
      PH_Include = [],
      PH_SkipEmptyTags = True\<rparr>"

text \<open>The loop over the sorted file keys: \<open>v := s.Files[k]\<close> is a pointer.\<close>

fun filesLoop ::
  "'x Object \<Rightarrow> string list \<Rightarrow> 'x InputPrometheusHttp \<Rightarrow> 'x gomap
     \<Rightarrow> ('x InputPrometheusHttp \<times> 'x gomap) exec" where
  "filesLoop s [] inp fl = Returned (inp, fl)"
| "filesLoop s (k # fkeys) inp fl =
     (case lookupPtr (Obj_Files s) k of
        None \<Rightarrow> Panicked
      | Some v \<Rightarrow>
          filesLoop s fkeys
            (inp\<lparr>PH_File := PH_File inp @
               [\<lparr>PHF_Name = k, PHF_Path = File_Path v, PHF_Type = File_Type v\<rparr>]\<rparr>)
            (AList.update k (File_Obj v) fl))"

text \<open>
  One round of the loop over the sorted BaseConfig keys, for the BaseConfig \<open>c\<close>: the
  labels are those of \<open>c\<close>, the vars are merged from \<open>c\<close> and the Object, in this order.
\<close>

definition configStep ::
  "('x, 'fs, 'sm) env \<Rightarrow> 'x Object \<Rightarrow> string \<Rightarrow> InputPrometheusHttpOptions \<Rightarrow> 'x gomap \<Rightarrow> bool
     \<Rightarrow> 'x BaseConfig \<Rightarrow> 'x InputPrometheusHttp \<Rightarrow> 'x InputPrometheusHttp" where
  "configStep E s labelsTpl opts fl persistMetrics c inp =
     (let labels = BC_Labels c;
          vars = MergeStringMaps [BC_Vars c, Obj_Vars s];
          inp1 = buildQualities E s (BC_Qualities c) labelsTpl opts labels vars fl
                   persistMetrics inp;
          inp2 = buildAvailability E s (BC_Availability c) labelsTpl opts labels vars fl
                   persistMetrics inp1
      in buildMetrics E s (BC_Metrics c) labelsTpl opts labels vars fl persistMetrics inp2)"

fun configsLoop ::
  "('x, 'fs, 'sm) env \<Rightarrow> 'x Object \<Rightarrow> string \<Rightarrow> InputPrometheusHttpOptions \<Rightarrow> 'x gomap \<Rightarrow> bool
     \<Rightarrow> string list \<Rightarrow> 'x InputPrometheusHttp \<Rightarrow> 'x InputPrometheusHttp exec" where
  "configsLoop E s labelsTpl opts fl persistMetrics [] inp = Returned inp"
| "configsLoop E s labelsTpl opts fl persistMetrics (k # keys) inp =
     (case lookupPtr (Obj_Configs s) k of
        None \<Rightarrow> Panicked
      | Some c \<Rightarrow>
          configsLoop E s labelsTpl opts fl persistMetrics keys
            (configStep E s labelsTpl opts fl persistMetrics c inp))"

text \<open>
  The input record as it stands when both loops are done, before the check on its metrics.
\<close>

definition collectInput ::
  "('x, 'fs, 'sm) env \<Rightarrow> 'x Object option \<Rightarrow> string \<Rightarrow> InputPrometheusHttpOptions \<Rightarrow> string \<Rightarrow> bool
     \<Rightarrow> 'x InputPrometheusHttp exec" where
  "collectInput E s labelsTpl opts name persistMetrics =
     (case s of
        None \<Rightarrow> Panicked
      | Some obj \<Rightarrow>
          (case filesLoop obj (sort (GetFileKeys (Obj_Files obj)))
                  (newInputPrometheusHttp opts name) [] of
             Panicked \<Rightarrow> Panicked
           | Returned r \<Rightarrow>
               configsLoop E obj labelsTpl opts (snd r) persistMetrics
                 (sort (GetBaseConfigKeys (Obj_Configs obj))) (fst r)))"

definition GenerateInputPrometheusHttpBytes ::
  "('x, 'fs, 'sm) env \<Rightarrow> 'x Object option \<Rightarrow> string \<Rightarrow> InputPrometheusHttpOptions \<Rightarrow> string \<Rightarrow> bool
     \<Rightarrow> 'x Config \<Rightarrow> ((bytes option \<times> error option) \<times> 'x Config) exec" where
  "GenerateInputPrometheusHttpBytes E s labelsTpl opts name persistMetrics tc =
     (case collectInput E s labelsTpl opts name persistMetrics of
        Panicked \<Rightarrow> Panicked
      | Returned inp \<Rightarrow>
          if length (PH_Metric inp) = 0 then Returned ((None, Some MetricsNotFound), tc)
          else
            let inp' = inp\<lparr>PH_Include :=
                         sort (updateIncludeTags (PHO_DefaultTags opts) (PH_Include inp))\<rparr>;
                tc' = tc\<lparr>Inputs := (Inputs tc)\<lparr>PrometheusHttp :=
                         PrometheusHttp (Inputs tc) @ [inp']\<rparr>\<rparr>
            in Returned (encodeConfig E tc', tc'))"

section \<open>The sink dispatcher\<close>

record SignalOptions =
  SO_URL :: string
  SO_User :: string
  SO_Password :: string

text \<open>
  The options of a sink object are an untyped value; \<open>SignalOpts\<close> is the case where the
  type assertion to \<open>discovery.SignalOptions\<close> succeeds.
\<close>

datatype SinkOptions = SignalOpts SignalOptions | OtherOpts

record 'sm SinkObject =
  SinkObject_Map :: 'sm
  SinkObject_Options :: SinkOptions

record Discovery =
  Discovery_Name :: string
  Discovery_Source :: string

record TelegrafSignalOptions =
  Signal_InputPrometheusHttpOptions :: InputPrometheusHttpOptions
  Signal_Template :: string
  Signal_Tags :: string

record TelegrafCertOptions =
  Cert_InputX509CertOptions :: InputX509CertOptions
  Cert_Template :: string
  Cert_Conf :: string

record TelegrafDNSOptions =
  DNS_InputDNSQueryOptions :: InputDNSQueryOptions
  DNS_Template :: string
  DNS_Conf :: string

record TelegrafHTTPOptions =
  HTTP_InputHTTPResponseOptions :: InputHTTPResponseOptions
  HTTP_Template :: string
  HTTP_Conf :: string

record TelegrafTCPOptions =
  TCP_InputNetResponseOptions :: InputNetResponseOptions
  TCP_Template :: string
  TCP_Conf :: string

record TelegrafOptions =
  Pass :: "string list"
  Signal :: TelegrafSignalOptions
  Cert :: TelegrafCertOptions
  DNS :: TelegrafDNSOptions
  HTTP :: TelegrafHTTPOptions
  TCP :: TelegrafTCPOptions
  Checksum :: bool

record Telegraf =
  options :: TelegrafOptions

definition signalOptions :: "Telegraf \<Rightarrow> InputPrometheusHttpOptions" where
  "signalOptions t = Signal_InputPrometheusHttpOptions (Signal (options t))"

definition setSignalOptions :: "InputPrometheusHttpOptions \<Rightarrow> Telegraf \<Rightarrow> Telegraf" where
  "setSignalOptions o' t =
     t\<lparr>options := (options t)\<lparr>Signal :=
        (Signal (options t))\<lparr>Signal_InputPrometheusHttpOptions := o'\<rparr>\<rparr>\<rparr>"

text \<open>
  One round of the loop of \<open>processSignal\<close>, for the service \<open>k\<close> with Object pointer
  \<open>s1\<close>: a builder error is logged and the round ends there (\<open>continue\<close>).
\<close>

definition signalStep ::
  "('x, 'fs, 'sm) env \<Rightarrow> Telegraf \<Rightarrow> string \<Rightarrow> string \<Rightarrow> 'x Object option \<Rightarrow> 'fs world
     \<Rightarrow> 'fs world exec" where
  "signalStep E t source k s1 w =
     (case s1 of
        None \<Rightarrow> Panicked
      | Some obj \<Rightarrow>
          let rendered = Render E (Signal_Template (Signal (options t))) (Obj_Vars obj);
              path = fst rendered;
              w1 = w\<lparr>logs := logs w @ snd rendered\<rparr>;
              w2 = logDebug ''%s: Processing service: %s for path: %s''
                     [StrArg source, StrArg k, StrArg path] w1;
              w3 = logDebug ''%s: Found metrics: %v''
                     [StrArg source, ListArg (Obj_Metrics obj)] w2;
              w4 = record_event (Build ''GenerateInputPrometheusHttpBytes'') w3
          in case GenerateInputPrometheusHttpBytes E s1 (Signal_Tags (Signal (options t)))
                    (signalOptions t) path (PersistMetrics E) emptyConfig of
               Panicked \<Rightarrow> Panicked
             | Returned r \<Rightarrow>
                 (case snd (fst r) of
                    Some err \<Rightarrow>
                      Returned (logError ''%s: Service %s error: %s''
                                  [StrArg source, StrArg k, ErrArg err] w4)
                  | None \<Rightarrow>
                      Returned (CreateIfCheckSumIsDifferent E source path
                                  (Checksum (options t)) (fst (fst r)) w4)))"

fun signalLoop ::
  "('x, 'fs, 'sm) env \<Rightarrow> Telegraf \<Rightarrow> string \<Rightarrow> 'x Object option gomap \<Rightarrow> 'fs world
     \<Rightarrow> 'fs world exec" where
  "signalLoop E t source [] w = Returned w"
| "signalLoop E t source (ks # m) w =
     (case signalStep E t source (fst ks) (snd ks) w of
        Panicked \<Rightarrow> Panicked
      | Returned w' \<Rightarrow> signalLoop E t source m w')"

definition processSignal ::
  "('x, 'fs, 'sm) env \<Rightarrow> Telegraf \<Rightarrow> Discovery \<Rightarrow> 'sm \<Rightarrow> SinkOptions \<Rightarrow> 'fs world
     \<Rightarrow> (error option \<times> Telegraf \<times> 'fs world) exec" where
  "processSignal E t d sm so w =
     (case so of
        OtherOpts \<Rightarrow> Returned (Some NoOptions, t, w)
      | SignalOpts opts \<Rightarrow>
          let t1 = (if IsEmpty E (PHO_URL (signalOptions t))
                    then setSignalOptions ((signalOptions t)\<lparr>PHO_URL := SO_URL opts\<rparr>) t
                    else t);
              t2 = (if IsEmpty E (PHO_User (signalOptions t1))
                    then setSignalOptions ((signalOptions t1)\<lparr>PHO_User := SO_User opts\<rparr>) t1
                    else t1);
              t3 = (if IsEmpty E (PHO_Password (signalOptions t2))
                    then setSignalOptions
                           ((signalOptions t2)\<lparr>PHO_Password := SO_Password opts\<rparr>) t2
                    else t2);
              m = ConvertSyncMapToServices E sm;
              source = Discovery_Source d
          in case signalLoop E t3 source m w of
               Panicked \<Rightarrow> Panicked
             | Returned w' \<Rightarrow> Returned (None, t3, w'))"

text \<open>
  The four other branches build into a fresh container and hand the bytes to the gate; a
  builder error is returned to \<open>Process\<close>.
\<close>

definition persistBuilt ::
  "('x, 'fs, 'sm) env \<Rightarrow> Telegraf \<Rightarrow> Discovery \<Rightarrow> string \<Rightarrow> string
     \<Rightarrow> (bytes option \<times> error option) \<times> 'x Config \<Rightarrow> 'fs world \<Rightarrow> error option \<times> 'fs world" where
  "persistBuilt E t d template conf r w =
     (case snd (fst r) of
        Some err \<Rightarrow> (Some err, w)
      | None \<Rightarrow>
          (None, CreateWithTemplateIfCheckSumIsDifferent E (Discovery_Source d) template conf
                   (Checksum (options t)) (fst (fst r)) w))"

definition processCert ::
  "('x, 'fs, 'sm) env \<Rightarrow> Telegraf \<Rightarrow> Discovery \<Rightarrow> 'sm \<Rightarrow> 'fs world \<Rightarrow> error option \<times> 'fs world" where
  "processCert E t d sm w =
     (let m = ConvertSyncMapToLabelsMap E sm;
          r = GenerateInputX509CertBytes E (Cert_InputX509CertOptions (Cert (options t))) m
                emptyConfig
      in persistBuilt E t d (Cert_Template (Cert (options t))) (Cert_Conf (Cert (options t))) r
           (record_event (Build ''GenerateInputX509CertBytes'') w))"

definition processDNS ::
  "('x, 'fs, 'sm) env \<Rightarrow> Telegraf \<Rightarrow> Discovery \<Rightarrow> 'sm \<Rightarrow> 'fs world \<Rightarrow> error option \<times> 'fs world" where
  "processDNS E t d sm w =
     (let m = ConvertSyncMapToLabelsMap E sm;
          r = GenerateInputDNSQueryBytes E (DNS_InputDNSQueryOptions (DNS (options t))) m
                emptyConfig
      in persistBuilt E t d (DNS_Template (DNS (options t))) (DNS_Conf (DNS (options t))) r
           (record_event (Build ''GenerateInputDNSQueryBytes'') w))"

definition processHTTP ::
  "('x, 'fs, 'sm) env \<Rightarrow> Telegraf \<Rightarrow> Discovery \<Rightarrow> 'sm \<Rightarrow> 'fs world \<Rightarrow> error option \<times> 'fs world" where
  "processHTTP E t d sm w =
     (let m = ConvertSyncMapToLabelsMap E sm;
          r = GenerateInputHTTPResponseBytes E
                (HTTP_InputHTTPResponseOptions (HTTP (options t))) m emptyConfig
      in persistBuilt E t d (HTTP_Template (HTTP (options t))) (HTTP_Conf (HTTP (options t))) r
           (record_event (Build ''GenerateInputHTTPResponseBytes'') w))"

definition processTCP ::
  "('x, 'fs, 'sm) env \<Rightarrow> Telegraf \<Rightarrow> Discovery \<Rightarrow> 'sm \<Rightarrow> 'fs world \<Rightarrow> error option \<times> 'fs world" where
  "processTCP E t d sm w =
     (let m = ConvertSyncMapToLabelsMap E sm;
          r = GenerateInputNETResponseBytes E
                (TCP_InputNetResponseOptions (TCP (options t))) m ''tcp'' emptyConfig
      in persistBuilt E t d (TCP_Template (TCP (options t))) (TCP_Conf (TCP (options t))) r
           (record_event (Build ''GenerateInputNETResponseBytes'') w))"

definition reportError :: "Discovery \<Rightarrow> string \<Rightarrow> error option \<Rightarrow> 'fs world \<Rightarrow> 'fs world" where
  "reportError d dname err w =
     (case err of
        None \<Rightarrow> w
      | Some e \<Rightarrow>
          logError ''%s: %s query error: %s''
            [StrArg (Discovery_Source d), StrArg dname, ErrArg e] w)"

definition Process ::
  "('x, 'fs, 'sm) env \<Rightarrow> Telegraf \<Rightarrow> Discovery \<Rightarrow> 'sm SinkObject \<Rightarrow> 'fs world
     \<Rightarrow> (Telegraf \<times> 'fs world) exec" where
  "Process E t d so w0 =
     (let dname = Discovery_Name d;
          m = SinkObject_Map so;
          w = logDebug ''Telegraf has to process %d objects from %s...''
                [IntArg (SinkMapLen E m), StrArg dname] w0
      in if dname = ''Signal'' then
           (case processSignal E t d m (SinkObject_Options so) w of
              Panicked \<Rightarrow> Panicked
            | Returned r \<Rightarrow>
                Returned (fst (snd r), reportError d dname (fst r) (snd (snd r))))
         else if dname = ''Cert'' then
           (let r = processCert E t d m w in Returned (t, reportError d dname (fst r) (snd r)))
         else if dname = ''DNS'' then
           (let r = processDNS E t d m w in Returned (t, reportError d dname (fst r) (snd r)))
         else if dname = ''HTTP'' then
           (let r = processHTTP E t d m w in Returned (t, reportError d dname (fst r) (snd r)))
         else if dname = ''TCP'' then
           (let r = processTCP E t d m w in Returned (t, reportError d dname (fst r) (snd r)))
         else Returned (t, logDebug ''Telegraf has no support for %s'' [StrArg dname] w))"

section \<open>Example collaborators\<close>

text \<open>
  A concrete instance of the collaborators, to run the model on concrete inputs. The file
  system is a map from paths to contents; the opaque values are label maps, and the metrics
  step appends the vars it is given as its metric entry, so that a run shows them.
\<close>

definition exampleEncode :: "Labels Config \<Rightarrow> string + bytes" where
  "exampleEncode tc =
     Inr (''[inputs]'' @ newline
        @ concat (map (\<lambda>r. ''prometheus_http '' @ PH_Name r @ newline) (PrometheusHttp (Inputs tc)))
        @ concat (map (\<lambda>r. ''dns_query '' @ concat (DNS_Domains r) @ newline) (DNSQuery (Inputs tc)))
        @ concat (map (\<lambda>r. ''http_response '' @ concat (HTTP_URLs r) @ newline)
            (HTTPResponse (Inputs tc)))
        @ concat (map (\<lambda>r. ''net_response '' @ NET_Address r @ newline) (NetResponse (Inputs tc)))
        @ concat (map (\<lambda>r. ''x509_cert '' @ concat (X509_Sources r) @ newline)
            (X509Cert (Inputs tc))))"

definition exampleFileWrite ::
  "string \<Rightarrow> bytes \<Rightarrow> bool \<Rightarrow> bytes gomap \<Rightarrow> (bool \<times> string option) \<times> bytes gomap" where
  "exampleFileWrite path content checksum fs =
     (if checksum \<and> map_of fs path = Some content then ((True, None), fs)
      else ((False, None), AList.update path content fs))"

definition exampleBuildMetrics ::
  "Labels Object \<Rightarrow> Labels \<Rightarrow> string \<Rightarrow> InputPrometheusHttpOptions \<Rightarrow> Labels \<Rightarrow> Labels
     \<Rightarrow> Labels gomap \<Rightarrow> bool \<Rightarrow> Labels InputPrometheusHttp \<Rightarrow> Labels InputPrometheusHttp" where
  "exampleBuildMetrics s m labelsTpl opts labels vars fl persistMetrics inp =
     (if m = [] then inp
      else inp\<lparr>PH_Metric := PH_Metric inp @ [vars],
               PH_Include := updateIncludeTags (map fst labels) (PH_Include inp)\<rparr>)"

definition exampleEnv ::
  "(Labels, bytes gomap, Labels Object option gomap \<times> Labels gomap) env" where
  "exampleEnv =
     \<lparr>IsEmpty = (\<lambda>s. s = []),
      TrimSpace = (\<lambda>s. dropWhile (\<lambda>c. c = CHR '' '') (rev (dropWhile (\<lambda>c. c = CHR '' '') (rev s)))),
      Encode = exampleEncode,
      FileWriteWithCheckSum = exampleFileWrite,
      Render = (\<lambda>tpl vars.
        (tpl @ (case map_of vars ''service'' of None \<Rightarrow> [] | Some v \<Rightarrow> v) @ ''.conf'', [])),
      buildQualities = (\<lambda>s q labelsTpl opts labels vars fl persistMetrics inp. inp),
      buildAvailability = (\<lambda>s a labelsTpl opts labels vars fl persistMetrics inp. inp),
      buildMetrics = exampleBuildMetrics,
      ConvertSyncMapToServices = fst,
      ConvertSyncMapToLabelsMap = snd,
      SinkMapLen = (\<lambda>sm. length (fst sm) + length (snd sm)),
      PersistMetrics = False\<rparr>"

definition emptyWorld :: "bytes gomap world" where
  "emptyWorld = \<lparr>files = [], trace = [], logs = []\<rparr>"

text \<open>
  Further example data: the DNS scenario of the specification, options for each builder, an
  Object with one file and one BaseConfig whose Vars share the key \<open>env\<close> with the Object,
  an Object without any BaseConfig, and a sink.
\<close>

definition scenarioDomains :: "Labels gomap" where
  "scenarioDomains = [(''b.com'', [(''env'', ''prod'')]), (''a.com'', [(''env'', ''dev'')])]"

definition exampleDNSOptions :: InputDNSQueryOptions where
  "exampleDNSOptions =
     \<lparr>DNSO_Interval = ''10s'', DNSO_Servers = ''8.8.8.8, 1.1.1.1,8.8.8.8'', DNSO_Network = ''udp'',
      DNSO_RecordType = ''A'', DNSO_Port = 53, DNSO_Timeout = 2, DNSO_Tags = [''env'']\<rparr>"

definition exampleHTTPOptions :: InputHTTPResponseOptions where
  "exampleHTTPOptions =
     \<lparr>HTTPO_Interval = ''10s'', HTTPO_URLs = [], HTTPO_Path = [], HTTPO_Method = ''GET'',
      HTTPO_FollowRedirects = False, HTTPO_StringMatch = [], HTTPO_StatusCode = 0,
      HTTPO_Timeout = ''5s'', HTTPO_Tags = [''env'']\<rparr>"

definition exampleNetOptions :: InputNetResponseOptions where
  "exampleNetOptions =
     \<lparr>NETO_Interval = ''10s'', NETO_Timeout = ''5s'', NETO_ReadTimeout = ''3s'', NETO_Send = [],
      NETO_Expect = [], NETO_Tags = [''env'']\<rparr>"

definition exampleX509Options :: InputX509CertOptions where
  "exampleX509Options =
     \<lparr>X509O_Interval = ''10s'', X509O_Timeout = ''5s'', X509O_ServerName = [],
      X509O_ExcludeRootCerts = False, X509O_TLSCA = [], X509O_TLSCert = [], X509O_TLSKey = [],
      X509O_TLSServerName = [], X509O_UseProxy = False, X509O_ProxyURL = [],
      X509O_Tags = [''env'']\<rparr>"

definition teamLabels :: "Labels gomap" where
  "teamLabels = [(''a.com'', [(''team'', ''x'')])]"

definition examplePHOptions :: InputPrometheusHttpOptions where
  "examplePHOptions =
     \<lparr>PHO_URL = ''http://prometheus:9090'', PHO_User = [], PHO_Password = [], PHO_Version = ''v1'',
      PHO_Params = [], PHO_Interval = ''10s'', PHO_Timeout = ''5s'', PHO_Duration = [],
      PHO_Prefix = [], PHO_QualityName = ''quality'', PHO_QualityRange = ''5m'',
      PHO_QualityEvery = ''15s'', PHO_QualityPoints = 20, PHO_QualityQuery = [],
      PHO_AvailabilityName = ''availability'', PHO_MetricName = ''metric'',
      PHO_DefaultTags = [''host''], PHO_VarFormat = ''$%s''\<rparr>"

definition exampleBaseConfig :: "Labels BaseConfig" where
  "exampleBaseConfig =
     \<lparr>BC_Labels = [(''team'', ''x'')],
      BC_Vars = [(''env'', ''config''), (''region'', ''eu'')],
      BC_Qualities = [], BC_Availability = [], BC_Metrics = [(''up'', ''up'')]\<rparr>"

definition exampleObject :: "Labels Object" where
  "exampleObject =
     \<lparr>Obj_Vars = [(''env'', ''object''), (''service'', ''svc'')],
      Obj_Labels = [],
      Obj_Files = [(''rules'', Some \<lparr>File_Path = ''/etc/svc.yml'', File_Type = ''yaml'',
                                     File_Obj = []\<rparr>)],
      Obj_Configs = [(''base'', Some exampleBaseConfig)],
      Obj_Metrics = [''up'']\<rparr>"

definition bareObject :: "Labels Object" where
  "bareObject =
     \<lparr>Obj_Vars = [(''service'', ''bare'')], Obj_Labels = [], Obj_Files = [], Obj_Configs = [],
      Obj_Metrics = []\<rparr>"

definition exampleTelegraf :: Telegraf where
  "exampleTelegraf =
     \<lparr>options =
        \<lparr>Pass = [],
         Signal = \<lparr>Signal_InputPrometheusHttpOptions = examplePHOptions,
                    Signal_Template = ''/etc/telegraf/'', Signal_Tags = []\<rparr>,
         Cert = \<lparr>Cert_InputX509CertOptions = exampleX509Options, Cert_Template = [],
                  Cert_Conf = ''cert.conf''\<rparr>,
         DNS = \<lparr>DNS_InputDNSQueryOptions = exampleDNSOptions, DNS_Template = ''# static'',
                 DNS_Conf = ''dns.conf''\<rparr>,
         HTTP = \<lparr>HTTP_InputHTTPResponseOptions = exampleHTTPOptions, HTTP_Template = [],
                  HTTP_Conf = ''http.conf''\<rparr>,
         TCP = \<lparr>TCP_InputNetResponseOptions = exampleNetOptions, TCP_Template = [],
                 TCP_Conf = ''tcp.conf''\<rparr>,
         Checksum = True\<rparr>\<rparr>"

section \<open>Auxiliary facts\<close>

subsection \<open>Include lists\<close>

lemma updateIncludeTags_set: "set (updateIncludeTags tags incl) = set incl \<union> set tags"
  by (induction tags arbitrary: incl) auto

lemma updateIncludeTags_distinct: "distinct incl \<Longrightarrow> distinct (updateIncludeTags tags incl)"
  by (induction tags arbitrary: incl) auto

lemma sort_updateIncludeTags:
  "sort (updateIncludeTags tags []) = sorted_list_of_set (set tags)"
proof -
  have "distinct (updateIncludeTags tags [])"
    by (rule updateIncludeTags_distinct) simp
  moreover have "set (updateIncludeTags tags []) = set tags"
    by (simp add: updateIncludeTags_set)
  ultimately show ?thesis
    by (metis sorted_list_of_set_sort_remdups distinct_remdups_id)
qed

subsection \<open>The loops of the builders\<close>

text \<open>Each loop appends one record per key, in the order of the keys, and changes nothing else.\<close>

lemma dnsLoop_eq:
  "dnsLoop opts servers domains keys tc =
     tc\<lparr>Inputs := (Inputs tc)\<lparr>DNSQuery :=
        DNSQuery (Inputs tc) @ map (newInputDNSQuery opts servers domains) keys\<rparr>\<rparr>"
  by (induction keys arbitrary: tc) auto

lemma httpLoop_eq:
  "httpLoop opts urls keys tc =
     tc\<lparr>Inputs := (Inputs tc)\<lparr>HTTPResponse :=
        HTTPResponse (Inputs tc) @ map (newInputHTTPResponse opts urls) keys\<rparr>\<rparr>"
  by (induction keys arbitrary: tc) auto

lemma netLoop_eq:
  "netLoop opts addresses protocol keys tc =
     tc\<lparr>Inputs := (Inputs tc)\<lparr>NetResponse :=
        NetResponse (Inputs tc) @ map (newInputNetResponse opts addresses protocol) keys\<rparr>\<rparr>"
  by (induction keys arbitrary: tc) auto

lemma x509Loop_eq:
  "x509Loop opts addresses keys tc =
     tc\<lparr>Inputs := (Inputs tc)\<lparr>X509Cert :=
        X509Cert (Inputs tc) @ map (newInputX509Cert opts addresses) keys\<rparr>\<rparr>"
  by (induction keys arbitrary: tc) auto

subsection \<open>Go maps as association lists\<close>

lemma lookupLabels_member:
  "distinct (map fst m) \<Longrightarrow> (k, v) \<in> set m \<Longrightarrow> lookupLabels m k = v"
  by (simp add: lookupLabels_def)

lemma sort_keys_entries:
  assumes "distinct (map fst m)"
  shows "map (\<lambda>k. (k, lookupLabels m k)) (sort (map fst m)) = sort_key fst m"
proof -
  have keys: "map fst (sort_key fst m) = sort (map fst m)"
    by (rule properties_for_sort [symmetric]) (simp_all add: sorted_sort_key)
  have "map (\<lambda>k. (k, lookupLabels m k)) (map fst (sort_key fst m)) = sort_key fst m"
  proof -
    have "(fst e, lookupLabels m (fst e)) = e" if "e \<in> set (sort_key fst m)" for e
    proof -
      from that have "(fst e, snd e) \<in> set m" by simp
      with assms show ?thesis
        using lookupLabels_member [of m "fst e" "snd e"] by simp
    qed
    then have "map (\<lambda>e. (fst e, lookupLabels m (fst e))) (sort_key fst m) = sort_key fst m"
      by (rule map_idI)
    then show ?thesis by (simp add: comp_def)
  qed
  then show ?thesis by (simp add: keys)
qed

lemma gomap_order_irrelevant:
  assumes "distinct (map fst m)" "distinct (map fst m')" "set m' = set m"
  shows "sort (map fst m') = sort (map fst m)" and "lookupLabels m' = lookupLabels m"
proof -
  have "distinct m'" and "distinct m"
    using assms by (simp_all add: distinct_map)
  then have "mset m' = mset m"
    using assms(3) by (simp add: set_eq_iff_mset_eq_distinct)
  then have "mset (map fst m') = mset (map fst m)"
    by simp
  then show "sort (map fst m') = sort (map fst m)"
    by (simp add: properties_for_sort)
  have "map_of m' = map_of m"
    using assms by (simp add: map_of_inject_set)
  then show "lookupLabels m' = lookupLabels m"
    by (simp add: lookupLabels_def fun_eq_iff)
qed

subsection \<open>What a builder call appends\<close>

lemma dns_emitted:
  "DNSQuery (Inputs (snd (GenerateInputDNSQueryBytes E opts domains tc))) =
     DNSQuery (Inputs tc) @
       map (newInputDNSQuery opts
              (sort (collectServers E (Split (DNSO_Servers opts) (CHR '','')) [])) domains)
         (sort (map fst domains))"
  by (simp add: GenerateInputDNSQueryBytes_def Let_def dnsLoop_eq GetLabelsKeys_def)

lemma http_emitted:
  "HTTPResponse (Inputs (snd (GenerateInputHTTPResponseBytes E opts urls tc))) =
     HTTPResponse (Inputs tc) @ map (newInputHTTPResponse opts urls) (sort (map fst urls))"
  by (simp add: GenerateInputHTTPResponseBytes_def Let_def httpLoop_eq GetLabelsKeys_def)

lemma net_emitted:
  "NetResponse (Inputs (snd (GenerateInputNETResponseBytes E opts addresses protocol tc))) =
     NetResponse (Inputs tc) @
       map (newInputNetResponse opts addresses protocol) (sort (map fst addresses))"
  by (simp add: GenerateInputNETResponseBytes_def Let_def netLoop_eq GetLabelsKeys_def)

lemma x509_emitted:
  "X509Cert (Inputs (snd (GenerateInputX509CertBytes E opts addresses tc))) =
     X509Cert (Inputs tc) @ map (newInputX509Cert opts addresses) (sort (map fst addresses))"
  by (simp add: GenerateInputX509CertBytes_def Let_def x509Loop_eq GetLabelsKeys_def)

lemma metrics_appended:
  assumes "GenerateInputPrometheusHttpBytes E s labelsTpl opts name pm tc = Returned res"
    and "snd (fst res) \<noteq> Some MetricsNotFound"
  shows "\<exists>inp. collectInput E s labelsTpl opts name pm = Returned inp \<and> PH_Metric inp \<noteq> []
     \<and> PrometheusHttp (Inputs (snd res)) = PrometheusHttp (Inputs tc) @
         [inp\<lparr>PH_Include := sort (updateIncludeTags (PHO_DefaultTags opts) (PH_Include inp))\<rparr>]
     \<and> fst res = encodeConfig E (snd res)"
  using assms
  by (auto simp: GenerateInputPrometheusHttpBytes_def Let_def split: exec.splits if_splits)

subsection \<open>Merging string maps\<close>




subsection \<open>The metrics builder and the Signal path\<close>





lemma bare_collect:
  "collectInput exampleEnv (Some bareObject) [] examplePHOptions ''/etc/telegraf/bare.conf''
     False = Returned (newInputPrometheusHttp examplePHOptions ''/etc/telegraf/bare.conf'')"
  by (simp add: collectInput_def bareObject_def GetFileKeys_def GetBaseConfigKeys_def)

lemma example_collect:
  "collectInput exampleEnv (Some exampleObject) [] examplePHOptions ''svc.conf'' False =
     Returned ((newInputPrometheusHttp examplePHOptions ''svc.conf'')
       \<lparr>PH_File := [\<lparr>PHF_Name = ''rules'', PHF_Path = ''/etc/svc.yml'', PHF_Type = ''yaml''\<rparr>],
        PH_Metric := [[(''env'', ''object''), (''region'', ''eu''), (''service'', ''svc'')]],
        PH_Include := [''team'']\<rparr>)"
  by (simp add: collectInput_def exampleObject_def GetFileKeys_def GetBaseConfigKeys_def
      lookupPtr_def configStep_def exampleEnv_def exampleBuildMetrics_def exampleBaseConfig_def
      MergeStringMaps_def newInputPrometheusHttp_def)

section \<open>Properties\<close>




text \<open>
  C2. For every map of domains to Labels, the DNS builder appends exactly one record per
  key, in lexicographic order of the keys, and the Tags of each record are the Labels of its
  key: read as pairs of domain and Tags, the new records are the entries of the map sorted
  by key. The result does not depend on the iteration order: a map with the same entries in
  another order gives the same result. In the scenario of the specification (keys
  \<open>b.com\<close> and \<open>a.com\<close>, default tag \<open>env\<close>) the records are \<open>a.com\<close>, then
  \<open>b.com\<close>, each with Include \<open>[env]\<close> and its own Tags.
\<close>

theorem dns_records_follow_sorted_keys:
  assumes "distinct (map fst domains)"
  shows "(\<exists>new. DNSQuery (Inputs (snd (GenerateInputDNSQueryBytes E opts domains tc))) =
              DNSQuery (Inputs tc) @ new
            \<and> map (\<lambda>r. (DNS_Domains r, DNS_Tags r)) new =
              map (\<lambda>e. ([fst e], snd e)) (sort_key fst domains))
     \<and> (\<forall>domains'. distinct (map fst domains') \<and> set domains' = set domains \<longrightarrow>
           GenerateInputDNSQueryBytes E opts domains' tc =
           GenerateInputDNSQueryBytes E opts domains tc)
     \<and> (DNSO_Tags opts = [''env''] \<longrightarrow>
           map (\<lambda>r. (DNS_Domains r, DNS_Include r, DNS_Tags r))
             (DNSQuery (Inputs (snd (GenerateInputDNSQueryBytes E opts scenarioDomains
                emptyConfig)))) =
           [([''a.com''], [''env''], [(''env'', ''dev'')]),
            ([''b.com''], [''env''], [(''env'', ''prod'')])])"
proof (intro conjI allI impI)
  let ?servers = "sort (collectServers E (Split (DNSO_Servers opts) (CHR '','')) [])"
  let ?new = "map (newInputDNSQuery opts ?servers domains) (sort (map fst domains))"
  have "map (\<lambda>r. (DNS_Domains r, DNS_Tags r)) ?new =
        map (\<lambda>e. ([fst e], snd e)) (map (\<lambda>k. (k, lookupLabels domains k)) (sort (map fst domains)))"
    by (simp add: newInputDNSQuery_def comp_def)
  also have "\<dots> = map (\<lambda>e. ([fst e], snd e)) (sort_key fst domains)"
    using assms by (simp only: sort_keys_entries)
  finally show "\<exists>new. DNSQuery (Inputs (snd (GenerateInputDNSQueryBytes E opts domains tc))) =
              DNSQuery (Inputs tc) @ new
            \<and> map (\<lambda>r. (DNS_Domains r, DNS_Tags r)) new =
              map (\<lambda>e. ([fst e], snd e)) (sort_key fst domains)"
    using dns_emitted by blast
next
  fix domains'
  assume "distinct (map fst domains') \<and> set domains' = set domains"
  then have "sort (map fst domains') = sort (map fst domains)"
    and "lookupLabels domains' = lookupLabels domains"
    using assms gomap_order_irrelevant by blast+
  moreover from this have "newInputDNSQuery opts servers domains' =
      newInputDNSQuery opts servers domains" for servers
    by (simp add: fun_eq_iff newInputDNSQuery_def)
  ultimately show "GenerateInputDNSQueryBytes E opts domains' tc =
             GenerateInputDNSQueryBytes E opts domains tc"
    by (simp add: GenerateInputDNSQueryBytes_def Let_def dnsLoop_eq GetLabelsKeys_def)
next
  assume "DNSO_Tags opts = [''env'']"
  then show "map (\<lambda>r. (DNS_Domains r, DNS_Include r, DNS_Tags r))
             (DNSQuery (Inputs (snd (GenerateInputDNSQueryBytes E opts scenarioDomains
                emptyConfig)))) =
           [([''a.com''], [''env''], [(''env'', ''dev'')]),
            ([''b.com''], [''env''], [(''env'', ''prod'')])]"
    by (simp add: dns_emitted scenarioDomains_def emptyConfig_def newInputDNSQuery_def
        lookupLabels_def)
qed

theorem dns_records_follow_sorted_keys_witness:
  "distinct (map fst scenarioDomains)
   \<and> map (\<lambda>r. (DNS_Domains r, DNS_Include r, DNS_Tags r))
        (DNSQuery (Inputs (snd (GenerateInputDNSQueryBytes exampleEnv exampleDNSOptions
           scenarioDomains emptyConfig)))) =
       [([''a.com''], [''env''], [(''env'', ''dev'')]),
        ([''b.com''], [''env''], [(''env'', ''prod'')])]
   \<and> GenerateInputDNSQueryBytes exampleEnv exampleDNSOptions (rev scenarioDomains) emptyConfig =
       GenerateInputDNSQueryBytes exampleEnv exampleDNSOptions scenarioDomains emptyConfig"
proof -
  have d: "distinct (map fst scenarioDomains)"
    by (simp add: scenarioDomains_def)
  have t: "DNSO_Tags exampleDNSOptions = [''env'']"
    by (simp add: exampleDNSOptions_def)
  have r: "distinct (map fst (rev scenarioDomains)) \<and> set (rev scenarioDomains) = set scenarioDomains"
    by (auto simp: scenarioDomains_def)
  from dns_records_follow_sorted_keys [OF d, of exampleEnv exampleDNSOptions emptyConfig] t r d
  show ?thesis by blast
qed

text \<open>
  C3 as stated does not hold. With the default tag \<open>env\<close> and the labels \<open>team = x\<close> for
  \<open>a.com\<close>, the DNS record has Tags \<open>team = x\<close> and Include \<open>[env]\<close>: the label key
  \<open>team\<close> is not in Include, while the sorted union of the claim is \<open>[env, team]\<close>.
\<close>

theorem include_ignores_label_keys_counterexample:
  "map DNS_Tags (DNSQuery (Inputs (snd (GenerateInputDNSQueryBytes exampleEnv exampleDNSOptions
       teamLabels emptyConfig)))) = [[(''team'', ''x'')]]
   \<and> map DNS_Include (DNSQuery (Inputs (snd (GenerateInputDNSQueryBytes exampleEnv
       exampleDNSOptions teamLabels emptyConfig)))) = [[''env'']]
   \<and> [''env''] \<noteq> sort (remdups (DNSO_Tags exampleDNSOptions @ map fst [(''team'', ''x'')]))"
  by (simp add: dns_emitted teamLabels_def emptyConfig_def newInputDNSQuery_def
      lookupLabels_def exampleDNSOptions_def)

text \<open>
  C3, amended. Every record appended by the DNS, HTTP, net and X.509 builders has as Include
  the sorted, de-duplicated list of the options' tag names alone; the keys of its Labels are
  not added. Its Tags are the Labels of its key. The record appended by the metrics builder
  keeps the Tags that the build steps left, and its Include is sorted and holds the
  options' default-tag names together with the names that the build steps put into Include.
\<close>

theorem include_is_sorted_options_tags:
  "(\<forall>r \<in> set (drop (length (DNSQuery (Inputs tc)))
        (DNSQuery (Inputs (snd (GenerateInputDNSQueryBytes E dopts m tc))))).
      DNS_Include r = sorted_list_of_set (set (DNSO_Tags dopts))
      \<and> (\<exists>k. DNS_Domains r = [k] \<and> DNS_Tags r = lookupLabels m k))
   \<and> (\<forall>r \<in> set (drop (length (HTTPResponse (Inputs tc)))
        (HTTPResponse (Inputs (snd (GenerateInputHTTPResponseBytes E hopts m tc))))).
      HTTP_Include r = sorted_list_of_set (set (HTTPO_Tags hopts))
      \<and> (\<exists>k. HTTP_URLs r = [k] \<and> HTTP_Tags r = lookupLabels m k))
   \<and> (\<forall>r \<in> set (drop (length (NetResponse (Inputs tc)))
        (NetResponse (Inputs (snd (GenerateInputNETResponseBytes E nopts m protocol tc))))).
      NET_Include r = sorted_list_of_set (set (NETO_Tags nopts))
      \<and> NET_Tags r = lookupLabels m (NET_Address r))
   \<and> (\<forall>r \<in> set (drop (length (X509Cert (Inputs tc)))
        (X509Cert (Inputs (snd (GenerateInputX509CertBytes E xopts m tc))))).
      X509_Include r = sorted_list_of_set (set (X509O_Tags xopts))
      \<and> (\<exists>k. X509_Sources r = [k] \<and> X509_Tags r = lookupLabels m k))
   \<and> (\<forall>res. GenerateInputPrometheusHttpBytes E s labelsTpl popts name pm tc = Returned res
          \<and> snd (fst res) \<noteq> Some MetricsNotFound \<longrightarrow>
        (\<exists>inp r. collectInput E s labelsTpl popts name pm = Returned inp
           \<and> PrometheusHttp (Inputs (snd res)) = PrometheusHttp (Inputs tc) @ [r]
           \<and> PH_Tags r = PH_Tags inp
           \<and> sorted (PH_Include r)
           \<and> set (PH_Include r) = set (PHO_DefaultTags popts) \<union> set (PH_Include inp)))"
proof (intro conjI)
  show "\<forall>r \<in> set (drop (length (DNSQuery (Inputs tc)))
        (DNSQuery (Inputs (snd (GenerateInputDNSQueryBytes E dopts m tc))))).
      DNS_Include r = sorted_list_of_set (set (DNSO_Tags dopts))
      \<and> (\<exists>k. DNS_Domains r = [k] \<and> DNS_Tags r = lookupLabels m k)"
    by (auto simp: dns_emitted newInputDNSQuery_def sort_updateIncludeTags)
  show "\<forall>r \<in> set (drop (length (HTTPResponse (Inputs tc)))
        (HTTPResponse (Inputs (snd (GenerateInputHTTPResponseBytes E hopts m tc))))).
      HTTP_Include r = sorted_list_of_set (set (HTTPO_Tags hopts))
      \<and> (\<exists>k. HTTP_URLs r = [k] \<and> HTTP_Tags r = lookupLabels m k)"
    by (auto simp: http_emitted newInputHTTPResponse_def sort_updateIncludeTags)
  show "\<forall>r \<in> set (drop (length (NetResponse (Inputs tc)))
        (NetResponse (Inputs (snd (GenerateInputNETResponseBytes E nopts m protocol tc))))).
      NET_Include r = sorted_list_of_set (set (NETO_Tags nopts))
      \<and> NET_Tags r = lookupLabels m (NET_Address r)"
    by (auto simp: net_emitted newInputNetResponse_def sort_updateIncludeTags)
  show "\<forall>r \<in> set (drop (length (X509Cert (Inputs tc)))
        (X509Cert (Inputs (snd (GenerateInputX509CertBytes E xopts m tc))))).
      X509_Include r = sorted_list_of_set (set (X509O_Tags xopts))
      \<and> (\<exists>k. X509_Sources r = [k] \<and> X509_Tags r = lookupLabels m k)"
    by (auto simp: x509_emitted newInputX509Cert_def sort_updateIncludeTags)
  show "\<forall>res. GenerateInputPrometheusHttpBytes E s labelsTpl popts name pm tc = Returned res
          \<and> snd (fst res) \<noteq> Some MetricsNotFound \<longrightarrow>
        (\<exists>inp r. collectInput E s labelsTpl popts name pm = Returned inp
           \<and> PrometheusHttp (Inputs (snd res)) = PrometheusHttp (Inputs tc) @ [r]
           \<and> PH_Tags r = PH_Tags inp
           \<and> sorted (PH_Include r)
           \<and> set (PH_Include r) = set (PHO_DefaultTags popts) \<union> set (PH_Include inp))"
  proof (intro allI impI)
    fix res
    assume "GenerateInputPrometheusHttpBytes E s labelsTpl popts name pm tc = Returned res
          \<and> snd (fst res) \<noteq> Some MetricsNotFound"
    then obtain inp where inp: "collectInput E s labelsTpl popts name pm = Returned inp"
      and app: "PrometheusHttp (Inputs (snd res)) = PrometheusHttp (Inputs tc) @
         [inp\<lparr>PH_Include := sort (updateIncludeTags (PHO_DefaultTags popts) (PH_Include inp))\<rparr>]"
      using metrics_appended by blast
    show "\<exists>inp r. collectInput E s labelsTpl popts name pm = Returned inp
           \<and> PrometheusHttp (Inputs (snd res)) = PrometheusHttp (Inputs tc) @ [r]
           \<and> PH_Tags r = PH_Tags inp
           \<and> sorted (PH_Include r)
           \<and> set (PH_Include r) = set (PHO_DefaultTags popts) \<union> set (PH_Include inp)"
    proof (intro exI conjI)
      let ?r = "inp\<lparr>PH_Include :=
        sort (updateIncludeTags (PHO_DefaultTags popts) (PH_Include inp))\<rparr>"
      show "collectInput E s labelsTpl popts name pm = Returned inp" by (rule inp)
      show "PrometheusHttp (Inputs (snd res)) = PrometheusHttp (Inputs tc) @ [?r]" by (rule app)
      show "PH_Tags ?r = PH_Tags inp" by simp
      show "sorted (PH_Include ?r)" by simp
      show "set (PH_Include ?r) = set (PHO_DefaultTags popts) \<union> set (PH_Include inp)"
        by (auto simp: updateIncludeTags_set)
    qed
  qed
qed

theorem include_is_sorted_options_tags_witness:
  "map DNS_Include (DNSQuery (Inputs (snd (GenerateInputDNSQueryBytes exampleEnv
       exampleDNSOptions teamLabels emptyConfig)))) = [[''env'']]
   \<and> map HTTP_Include (HTTPResponse (Inputs (snd (GenerateInputHTTPResponseBytes exampleEnv
       exampleHTTPOptions teamLabels emptyConfig)))) = [[''env'']]
   \<and> map NET_Include (NetResponse (Inputs (snd (GenerateInputNETResponseBytes exampleEnv
       exampleNetOptions teamLabels ''tcp'' emptyConfig)))) = [[''env'']]
   \<and> map X509_Include (X509Cert (Inputs (snd (GenerateInputX509CertBytes exampleEnv
       exampleX509Options teamLabels emptyConfig)))) = [[''env'']]
   \<and> (\<exists>res. GenerateInputPrometheusHttpBytes exampleEnv (Some exampleObject) []
          examplePHOptions ''svc.conf'' False emptyConfig = Returned res
        \<and> map PH_Include (PrometheusHttp (Inputs (snd res))) = [[''host'', ''team'']])"
proof -
  have d: "map DNS_Include (DNSQuery (Inputs (snd (GenerateInputDNSQueryBytes exampleEnv
       exampleDNSOptions teamLabels emptyConfig)))) = [[''env'']]"
    by (simp add: dns_emitted teamLabels_def emptyConfig_def newInputDNSQuery_def
        exampleDNSOptions_def)
  have h: "map HTTP_Include (HTTPResponse (Inputs (snd (GenerateInputHTTPResponseBytes exampleEnv
       exampleHTTPOptions teamLabels emptyConfig)))) = [[''env'']]"
    by (simp add: http_emitted teamLabels_def emptyConfig_def newInputHTTPResponse_def
        exampleHTTPOptions_def)
  have n: "map NET_Include (NetResponse (Inputs (snd (GenerateInputNETResponseBytes exampleEnv
       exampleNetOptions teamLabels ''tcp'' emptyConfig)))) = [[''env'']]"
    by (simp add: net_emitted teamLabels_def emptyConfig_def newInputNetResponse_def
        exampleNetOptions_def)
  have x: "map X509_Include (X509Cert (Inputs (snd (GenerateInputX509CertBytes exampleEnv
       exampleX509Options teamLabels emptyConfig)))) = [[''env'']]"
    by (simp add: x509_emitted teamLabels_def emptyConfig_def newInputX509Cert_def
        exampleX509Options_def)
  have g: "\<exists>res. GenerateInputPrometheusHttpBytes exampleEnv (Some exampleObject) []
          examplePHOptions ''svc.conf'' False emptyConfig = Returned res
        \<and> map PH_Include (PrometheusHttp (Inputs (snd res))) = [[''host'', ''team'']]"
    unfolding GenerateInputPrometheusHttpBytes_def example_collect
    by (simp add: Let_def emptyConfig_def examplePHOptions_def newInputPrometheusHttp_def)
  from include_is_sorted_options_tags [where E = exampleEnv and tc = emptyConfig
      and dopts = exampleDNSOptions and hopts = exampleHTTPOptions and nopts = exampleNetOptions
      and xopts = exampleX509Options and m = teamLabels and protocol = "''tcp''"
      and s = "Some exampleObject" and labelsTpl = "[]" and popts = examplePHOptions
      and name = "''svc.conf''" and pm = False] d h n x g
  show ?thesis by blast
qed





text \<open>
  C6. Called with a nil or an empty byte sequence, the persistence gate returns before it
  merges a template or calls \<open>FileWriteWithCheckSum\<close>: the file system is unchanged, no
  \<open>FileWrite\<close> is traced, and the only log entry is the debug message "No query config".
  This holds for every template.
\<close>

theorem gate_skips_empty_bytes:
  "bs = None \<or> bs = Some [] \<Longrightarrow>
   CreateWithTemplateIfCheckSumIsDifferent E name template conf checksum bs w =
     w\<lparr>trace := trace w @ [Gate name conf],
       logs := logs w @ [Debug ''%s: No query config'' [StrArg name]]\<rparr>"
  by (auto simp: CreateWithTemplateIfCheckSumIsDifferent_def logDebug_def record_event_def)

theorem gate_skips_empty_bytes_witness:
  "CreateWithTemplateIfCheckSumIsDifferent exampleEnv ''DNS'' ''# static'' ''dns.conf'' True
      (Some []) emptyWorld =
     \<lparr>files = [], trace = [Gate ''DNS'' ''dns.conf''],
      logs = [Debug ''%s: No query config'' [StrArg ''DNS'']]\<rparr>
   \<and> CreateWithTemplateIfCheckSumIsDifferent exampleEnv ''DNS'' [] ''dns.conf'' False
      None emptyWorld =
     \<lparr>files = [], trace = [Gate ''DNS'' ''dns.conf''],
      logs = [Debug ''%s: No query config'' [StrArg ''DNS'']]\<rparr>"
  using gate_skips_empty_bytes [of "Some []" exampleEnv "''DNS''" "''# static''" "''dns.conf''" True emptyWorld]
    gate_skips_empty_bytes [of None exampleEnv "''DNS''" "[]" "''dns.conf''" False emptyWorld]
  by (simp add: emptyWorld_def)

text \<open>
  C7. For a discovery name other than Signal, Cert, DNS, HTTP and TCP, \<open>Process\<close> returns
  with the sink unchanged, the file system unchanged and nothing added to the trace (no
  builder, no gate, no file write); it adds two debug entries to the log and no error entry.
\<close>

theorem unknown_discovery_is_noop:
  assumes "Discovery_Name d \<notin> {''Signal'', ''Cert'', ''DNS'', ''HTTP'', ''TCP''}"
  shows "Process E t d so w =
     Returned (t, w\<lparr>logs := logs w @
       [Debug ''Telegraf has to process %d objects from %s...''
          [IntArg (SinkMapLen E (SinkObject_Map so)), StrArg (Discovery_Name d)],
        Debug ''Telegraf has no support for %s'' [StrArg (Discovery_Name d)]]\<rparr>)"
  using assms by (simp add: Process_def Let_def logDebug_def)

theorem unknown_discovery_is_noop_witness:
  "Discovery_Name \<lparr>Discovery_Name = ''PubSub'', Discovery_Source = ''pubsub''\<rparr>
     \<notin> {''Signal'', ''Cert'', ''DNS'', ''HTTP'', ''TCP''}
   \<and> Process exampleEnv exampleTelegraf
       \<lparr>Discovery_Name = ''PubSub'', Discovery_Source = ''pubsub''\<rparr>
       \<lparr>SinkObject_Map = ([(''svc'', Some exampleObject)], teamLabels),
        SinkObject_Options = OtherOpts\<rparr> emptyWorld =
     Returned (exampleTelegraf,
       \<lparr>files = [], trace = [],
        logs = [Debug ''Telegraf has to process %d objects from %s...''
                  [IntArg 2, StrArg ''PubSub''],
                Debug ''Telegraf has no support for %s'' [StrArg ''PubSub'']]\<rparr>)"
proof -
  have n: "Discovery_Name \<lparr>Discovery_Name = ''PubSub'', Discovery_Source = ''pubsub''\<rparr>
     \<notin> {''Signal'', ''Cert'', ''DNS'', ''HTTP'', ''TCP''}"
    by simp
  from unknown_discovery_is_noop [OF n, of exampleEnv exampleTelegraf
      "\<lparr>SinkObject_Map = ([(''svc'', Some exampleObject)], teamLabels),
        SinkObject_Options = OtherOpts\<rparr>" emptyWorld] n
  show ?thesis
    by (simp add: exampleEnv_def emptyWorld_def teamLabels_def)
qed

text \<open>
  C8. When the metrics builder returns the error "Metrics are not found.", the container is
  the one it was given (the input record is not appended) and the returned byte slice is
  nil.
\<close>

theorem zero_metrics_error_leaves_container:
  assumes "GenerateInputPrometheusHttpBytes E s labelsTpl opts name pm tc =
             Returned ((bs, Some MetricsNotFound), tc')"
  shows "tc' = tc \<and> bs = None"
  using assms
  by (auto simp: GenerateInputPrometheusHttpBytes_def encodeConfig_def Let_def
      split: exec.splits if_splits sum.splits)

theorem zero_metrics_error_leaves_container_witness:
  "\<exists>bs tc'. GenerateInputPrometheusHttpBytes exampleEnv (Some bareObject) [] examplePHOptions
       ''/etc/telegraf/bare.conf'' False
       (snd (GenerateInputDNSQueryBytes exampleEnv exampleDNSOptions teamLabels emptyConfig)) =
       Returned ((bs, Some MetricsNotFound), tc')
     \<and> tc' = snd (GenerateInputDNSQueryBytes exampleEnv exampleDNSOptions teamLabels emptyConfig)
     \<and> bs = None"
proof -
  have "GenerateInputPrometheusHttpBytes exampleEnv (Some bareObject) [] examplePHOptions
       ''/etc/telegraf/bare.conf'' False
       (snd (GenerateInputDNSQueryBytes exampleEnv exampleDNSOptions teamLabels emptyConfig)) =
       Returned ((None, Some MetricsNotFound),
         snd (GenerateInputDNSQueryBytes exampleEnv exampleDNSOptions teamLabels emptyConfig))"
    by (simp add: GenerateInputPrometheusHttpBytes_def bare_collect newInputPrometheusHttp_def)
  then show ?thesis
    using zero_metrics_error_leaves_container by blast
qed

text \<open>
  C9. \<open>CreateIfCheckSumIsDifferent\<close> is \<open>CreateWithTemplateIfCheckSumIsDifferent\<close> with the
  empty template: for all arguments and every world, both leave the same file system, the
  same trace and the same log.
\<close>

theorem create_is_gate_without_template:
  "CreateIfCheckSumIsDifferent E name conf checksum bs w =
     CreateWithTemplateIfCheckSumIsDifferent E name [] conf checksum bs w"
  by (simp add: CreateIfCheckSumIsDifferent_def)

text \<open>
  C10. The HTTP-response builder appends one record per URL, and every record it appends
  has \<open>InsecureSkipVerify\<close> set, whatever the options are.
\<close>

theorem http_records_skip_verification:
  "\<exists>new. HTTPResponse (Inputs (snd (GenerateInputHTTPResponseBytes E opts urls tc))) =
           HTTPResponse (Inputs tc) @ new
         \<and> length new = length urls
         \<and> (\<forall>r \<in> set new. HTTP_InsecureSkipVerify r)"
  by (rule exI [of _ "map (newInputHTTPResponse opts urls) (sort (map fst urls))"])
    (simp add: http_emitted newInputHTTPResponse_def)

theorem http_records_skip_verification_witness:
  "map HTTP_InsecureSkipVerify (HTTPResponse (Inputs (snd (GenerateInputHTTPResponseBytes
       exampleEnv exampleHTTPOptions scenarioDomains emptyConfig)))) = [True, True]"
  using http_records_skip_verification [of exampleEnv exampleHTTPOptions scenarioDomains
      emptyConfig]
  by (simp add: http_emitted scenarioDomains_def emptyConfig_def newInputHTTPResponse_def)

end
